theory Spec2Isabelle
  imports Main "HOL-Library.AList"
begin

section \<open>The composition algebra of \<open>coolbox/core/frame/base.py\<close>\<close>

text \<open>
  \<open>FrameBase\<close> objects are mutable Python objects: \<open>__add__\<close> and \<open>__mul__\<close> start
  from \<open>copy(self)\<close>, the shallow copy of the standard library, and then mutate what the
  copy refers to. Which objects are shared after the copy decides what the operators
  do to their left operand, so the model is an explicit store: frames, property
  dictionaries and tracks live at addresses, and every operation takes the store and
  returns the new one.
\<close>

subsection \<open>Values and objects\<close>

type_synonym addr = nat

datatype scalar = SNone | SInt int | SStr string

type_synonym pydict = "string \<rightharpoonup> scalar"

record genome_range =
  chrom :: string
  range_start :: int
  range_end :: int

text \<open>A Coverage is an object with an identity of its own; only the identity matters here.\<close>

type_synonym coverage = nat

type_synonym frecord = string

text \<open>
  Modelled from the spec: the Track class (\<open>coolbox/core/track/base.py\<close>, not among the
  sources). A Track has a properties mapping, the ordered list of its attached coverages
  and an optional fetch capability; \<open>track_fetch = None\<close> is a track for which
  \<open>hasattr(track, 'fetch_data')\<close> is false.
\<close>

record track_obj =
  track_properties :: pydict
  coverages :: "coverage list"
  track_fetch :: "(genome_range \<Rightarrow> frecord list) option"

text \<open>
  A frame object. \<open>current_range\<close> and \<open>properties\<close> are the instance attributes that
  \<open>FrameBase.__init__\<close> sets; \<open>properties\<close> holds a reference to the dictionary it was
  given, so two frame objects can refer to one dictionary.
\<close>

text \<open>
  Modelled from the spec: the \<open>tracks\<close> attribute of a frame. \<open>tracks\<close> is an abstract
  property of \<open>FrameBase\<close>; its implementation is in the concrete Frame class, which is not
  among the sources. The spec gives a frame an ordered mapping from unique names to
  Tracks, in insertion order, of its own; the Track objects themselves are shared.
\<close>

record frame_obj =
  current_range :: "genome_range option"
  properties :: addr
  tracks :: "(string \<times> addr) list"

record store =
  frame_heap :: "addr \<Rightarrow> frame_obj"
  dict_heap :: "addr \<Rightarrow> pydict"
  track_heap :: "addr \<Rightarrow> track_obj"
  next_addr :: addr

text \<open>
  Modelled from the spec: the classes of the right operand. Track, Feature, FrameFeature,
  Coverage, CoverageStack, WidgetsPanel and Browser are imported from modules that are
  not among the sources; the spec describes the operands as tagged kinds, a Feature and
  a FrameFeature carrying \<open>(key, value)\<close>, a CoverageStack its \<open>coverages\<close>, a WidgetsPanel
  its \<open>ref\<close> and \<open>type\<close>, and a Browser as the frame, the reference genome and the
  widgets-box type it is built from. \<open>OOther\<close> is an object of any other class, with the
  name of that class. The \<open>isinstance\<close> tests of \<open>__add__\<close> and \<open>__mul__\<close> become the cases
  of this type, in the order of the source.

  A FrameFeature is a Feature: \<open>__add__\<close> tests \<open>isinstance(other, FrameFeature)\<close> before
  \<open>isinstance(other, Feature)\<close>, an order that matters only when FrameFeature derives from
  Feature. So \<open>isinstance(x, Feature)\<close> holds of an \<open>OFeature\<close> and of an \<open>OFrameFeature\<close>:
  in \<open>__add__\<close> the earlier FrameFeature branch takes the latter, in \<open>__mul__\<close> and in the
  assertion of \<open>add_feature_to_tracks\<close>, which test Feature only, both pass.
\<close>

datatype operand =
    OTrack addr
  | OFrame addr
  | OFrameFeature string scalar
  | OFeature string scalar
  | OCoverage coverage
  | OCoverageStack "coverage list"
  | OWidgetsPanel string string
  | OOther string

datatype kind =
    KTrack | KFrame | KFrameFeature | KFeature | KCoverage | KCoverageStack
  | KWidgetsPanel | KOther string

fun kind_of :: "operand \<Rightarrow> kind" where
  "kind_of (OTrack t) = KTrack"
| "kind_of (OFrame f) = KFrame"
| "kind_of (OFrameFeature k v) = KFrameFeature"
| "kind_of (OFeature k v) = KFeature"
| "kind_of (OCoverage c) = KCoverage"
| "kind_of (OCoverageStack cs) = KCoverageStack"
| "kind_of (OWidgetsPanel r t) = KWidgetsPanel"
| "kind_of (OOther n) = KOther n"

text \<open>
  The exceptions the module raises: \<open>RuntimeError\<close> in \<open>fetch_data\<close>, \<open>TypeError\<close> in the
  operators, \<open>AssertionError\<close> in \<open>add_feature_to_tracks\<close>, and what the constructor of
  \<open>GenomeRange\<close> raises on a string it cannot parse.
\<close>

datatype error =
    RuntimeError string
  | TypeError string kind kind
  | AssertionError string
  | ParseError string

text \<open>
  Modelled from the spec: \<open>op_err_msg\<close>, of \<open>coolbox.utilities\<close>, not among the sources. The
  error names the operator and the kinds of both operands, as in the docstring of
  \<open>__add__\<close>: \<open>unsupported operand type(s) for +: '<class Frame>' and '<class int>'\<close>. The
  left operand is a frame; \<open>__add__\<close> leaves the operator to its default \<open>+\<close>, \<open>__mul__\<close>
  passes \<open>op='*'\<close>.
\<close>

definition op_err_msg :: "string \<Rightarrow> operand \<Rightarrow> error" where
  "op_err_msg op other = TypeError op KFrame (kind_of other)"

record browser =
  browser_frame :: addr
  reference_genome :: string
  widgets_box :: string

datatype result = RFrame addr | RBrowser browser

subsection \<open>Primitive steps on the store\<close>

text \<open>
  \<open>copy(self)\<close>: \<open>FrameBase\<close> defines no \<open>__copy__\<close>, so the copy is a new object whose
  attributes are those of \<open>self\<close>: the same range, the same reference to the properties
  dictionary, the same track mapping.
\<close>

definition copy_frame :: "addr \<Rightarrow> store \<Rightarrow> addr \<times> store" where
  "copy_frame self s =
     (next_addr s,
      s\<lparr>frame_heap := (frame_heap s)(next_addr s := frame_heap s self),
        next_addr := Suc (next_addr s)\<rparr>)"

text \<open>\<open>d[k] = v\<close> on the dictionary at address \<open>d\<close>.\<close>

definition dict_setitem :: "addr \<Rightarrow> string \<Rightarrow> scalar \<Rightarrow> store \<Rightarrow> store" where
  "dict_setitem d k v s = s\<lparr>dict_heap := (dict_heap s)(d := (dict_heap s d)(k \<mapsto> v))\<rparr>"

text \<open>\<open>d.update(e)\<close> on the dictionaries at addresses \<open>d\<close> and \<open>e\<close>: the entries of \<open>e\<close> win.\<close>

definition dict_update :: "addr \<Rightarrow> addr \<Rightarrow> store \<Rightarrow> store" where
  "dict_update d e s = s\<lparr>dict_heap := (dict_heap s)(d := dict_heap s d ++ dict_heap s e)\<rparr>"

text \<open>\<open>track.properties[k] = v\<close>.\<close>

definition track_setitem :: "addr \<Rightarrow> string \<Rightarrow> scalar \<Rightarrow> store \<Rightarrow> store" where
  "track_setitem t k v s =
     s\<lparr>track_heap := (track_heap s)
          (t := (track_heap s t)\<lparr>track_properties := (track_properties (track_heap s t))(k \<mapsto> v)\<rparr>)\<rparr>"

text \<open>
  Modelled from the spec: \<open>Track.append_coverage\<close> and \<open>Track.pile_coverages\<close> (Track is not
  among the sources). The first appends one coverage to the track's list; the second,
  called with \<open>pos='top'\<close>, appends the block after the coverages already there.
\<close>

definition append_coverage :: "addr \<Rightarrow> coverage \<Rightarrow> store \<Rightarrow> store" where
  "append_coverage t c s =
     s\<lparr>track_heap := (track_heap s)
          (t := (track_heap s t)\<lparr>coverages := coverages (track_heap s t) @ [c]\<rparr>)\<rparr>"

definition pile_coverages :: "addr \<Rightarrow> coverage list \<Rightarrow> store \<Rightarrow> store" where
  "pile_coverages t cs s =
     s\<lparr>track_heap := (track_heap s)
          (t := (track_heap s t)\<lparr>coverages := coverages (track_heap s t) @ cs\<rparr>)\<rparr>"

text \<open>
  Modelled from the spec: \<open>add_track\<close>, abstract in \<open>FrameBase\<close>, implemented in the concrete
  Frame class (not among the sources). It inserts the track at the end of the ordered
  mapping under a generated name. The generator is a parameter: it sees the names in
  use and the track.
\<close>

type_synonym name_gen = "string list \<Rightarrow> addr \<Rightarrow> string"

definition add_track :: "name_gen \<Rightarrow> addr \<Rightarrow> addr \<Rightarrow> store \<Rightarrow> store" where
  "add_track gen f t s =
     s\<lparr>frame_heap := (frame_heap s)
          (f := (frame_heap s f)
             \<lparr>tracks := tracks (frame_heap s f)
                         @ [(gen (map fst (tracks (frame_heap s f))) t, t)]\<rparr>)\<rparr>"

subsection \<open>\<open>add_feature_to_tracks\<close> and \<open>add_cov_to_tracks\<close>\<close>

definition add_feature_to_tracks :: "addr \<Rightarrow> operand \<Rightarrow> store \<Rightarrow> error + store" where
  "add_feature_to_tracks self feature s =
     (case feature of
        OFeature k v \<Rightarrow>
          Inr (fold (\<lambda>track. track_setitem track k v) (map snd (tracks (frame_heap s self))) s)
      | OFrameFeature k v \<Rightarrow>
          Inr (fold (\<lambda>track. track_setitem track k v) (map snd (tracks (frame_heap s self))) s)
      | _ \<Rightarrow> Inl (AssertionError ''feature must a Feature object.''))"

definition add_cov_to_tracks :: "addr \<Rightarrow> coverage \<Rightarrow> store \<Rightarrow> store" where
  "add_cov_to_tracks self cov s =
     fold (\<lambda>track. append_coverage track cov) (map snd (tracks (frame_heap s self))) s"

subsection \<open>\<open>__add__\<close>\<close>

definition combine :: "name_gen \<Rightarrow> addr \<Rightarrow> operand \<Rightarrow> store \<Rightarrow> error + (result \<times> store)" where
  "combine gen self other s =
     (case copy_frame self s of (res, s1) \<Rightarrow>
        (case other of
           OTrack t \<Rightarrow> Inr (RFrame res, add_track gen res t s1)
         | OFrame other_f \<Rightarrow>
             (let s2 = fold (\<lambda>track. add_track gen res track)
                            (map snd (tracks (frame_heap s1 other_f))) s1
              in Inr (RFrame res,
                      dict_update (properties (frame_heap s2 res))
                                  (properties (frame_heap s2 other_f)) s2))
         | OFrameFeature k v \<Rightarrow>
             Inr (RFrame res, dict_setitem (properties (frame_heap s1 res)) k v s1)
         | OFeature k v \<Rightarrow>
             (if length (tracks (frame_heap s1 res)) \<noteq> 0
              then Inr (RFrame res, track_setitem (snd (last (tracks (frame_heap s1 res)))) k v s1)
              else Inr (RFrame res, s1))
         | OCoverage c \<Rightarrow>
             (if length (tracks (frame_heap s1 res)) \<noteq> 0
              then Inr (RFrame res, append_coverage (snd (last (tracks (frame_heap s1 res)))) c s1)
              else Inr (RFrame res, s1))
         | OCoverageStack cs \<Rightarrow>
             (if length (tracks (frame_heap s1 res)) \<noteq> 0
              then Inr (RFrame res, pile_coverages (snd (last (tracks (frame_heap s1 res)))) cs s1)
              else Inr (RFrame res, s1))
         | OWidgetsPanel r t \<Rightarrow>
             Inr (RBrowser \<lparr>browser_frame = self, reference_genome = r, widgets_box = t\<rparr>, s1)
         | OOther n \<Rightarrow> Inl (op_err_msg ''+'' other)))"

subsection \<open>\<open>__mul__\<close>\<close>

definition scale :: "addr \<Rightarrow> operand \<Rightarrow> store \<Rightarrow> error + (result \<times> store)" where
  "scale self other s =
     (case other of
        OCoverage c \<Rightarrow>
          (case copy_frame self s of (res, s1) \<Rightarrow>
             Inr (RFrame res, add_cov_to_tracks res c s1))
      | OFeature k v \<Rightarrow>
          (case copy_frame self s of (res, s1) \<Rightarrow>
             (case add_feature_to_tracks res other s1 of
                Inl e \<Rightarrow> Inl e
              | Inr s2 \<Rightarrow> Inr (RFrame res, s2)))
      | OFrameFeature k v \<Rightarrow>
          (case copy_frame self s of (res, s1) \<Rightarrow>
             (case add_feature_to_tracks res other s1 of
                Inl e \<Rightarrow> Inl e
              | Inr s2 \<Rightarrow> Inr (RFrame res, s2)))
      | _ \<Rightarrow> Inl (op_err_msg ''*'' other))"

subsection \<open>\<open>fetch_data\<close>\<close>

text \<open>
  The argument of \<open>fetch_data\<close> is \<open>None\<close>, a string or a \<open>GenomeRange\<close>. The constructor
  \<open>GenomeRange(str)\<close> is in \<open>coolbox.utilities\<close>, not among the sources: the parser is a
  parameter, and a string it rejects raises.
\<close>

datatype range_arg = RangeStr string | RangeObj genome_range

type_synonym tracks_data = "(string \<times> frecord list) list"

text \<open>
  The loop over \<open>self.tracks.items()\<close>. Beside the ordered dictionary it builds, the model
  keeps the list of the calls made to the tracks' \<open>fetch_data\<close>, in the order they are made.
\<close>

fun fetch_loop ::
  "(addr \<Rightarrow> track_obj) \<Rightarrow> genome_range \<Rightarrow> (string \<times> addr) list
     \<Rightarrow> tracks_data \<times> (string \<times> genome_range) list
     \<Rightarrow> tracks_data \<times> (string \<times> genome_range) list" where
  "fetch_loop th g [] acc = acc"
| "fetch_loop th g ((name, track) # rest) (tracks_data, calls) =
     (case track_fetch (th track) of
        Some f \<Rightarrow> fetch_loop th g rest (AList.update name (f g) tracks_data, calls @ [(name, g)])
      | None \<Rightarrow> fetch_loop th g rest (AList.update name [] tracks_data, calls))"

definition fetch_data ::
  "(string \<Rightarrow> genome_range option) \<Rightarrow> addr \<Rightarrow> range_arg option \<Rightarrow> store
     \<Rightarrow> (error + tracks_data) \<times> (string \<times> genome_range) list" where
  "fetch_data parse self genome_range s =
     (let genome_range1 =
            (case genome_range of
               None \<Rightarrow> map_option RangeObj (current_range (frame_heap s self))
             | Some r \<Rightarrow> Some r)
      in case genome_range1 of
           None \<Rightarrow> (Inl (RuntimeError ''Please specify a genome range like: chr1:1000-2000''), [])
         | Some (RangeStr str) \<Rightarrow>
             (case parse str of
                None \<Rightarrow> (Inl (ParseError str), [])
              | Some g \<Rightarrow>
                  (case fetch_loop (track_heap s) g (tracks (frame_heap s self)) ([], []) of
                     (td, calls) \<Rightarrow> (Inr td, calls)))
         | Some (RangeObj g) \<Rightarrow>
             (case fetch_loop (track_heap s) g (tracks (frame_heap s self)) ([], []) of
                (td, calls) \<Rightarrow> (Inr td, calls)))"

subsection \<open>A store to run the operators on\<close>

text \<open>
  Frame 0 has the range \<open>chr1:1000-2000\<close>, the properties dictionary 0 and two tracks:
  \<open>A\<close> without a fetch capability and \<open>B\<close> whose fetch returns \<open>[r1]\<close>. Frame 1 has the
  properties dictionary 1 and the track \<open>C\<close>. Every other frame has no track and no range.
\<close>

definition ex_gen :: name_gen where
  "ex_gen names track = ''track_'' @ replicate (Suc (length names)) CHR ''i''"

definition ex_store :: store where
  "ex_store =
     \<lparr>frame_heap = (\<lambda>_. \<lparr>current_range = None, properties = 2, tracks = []\<rparr>)
        (0 := \<lparr>current_range = Some \<lparr>chrom = ''chr1'', range_start = 1000, range_end = 2000\<rparr>,
               properties = 0, tracks = [(''A'', 0), (''B'', 1)]\<rparr>,
         1 := \<lparr>current_range = None, properties = 1, tracks = [(''C'', 2)]\<rparr>),
      dict_heap = (\<lambda>_. Map.empty)
        (0 := [''title'' \<mapsto> SStr ''a'', ''width'' \<mapsto> SInt 40],
         1 := [''title'' \<mapsto> SStr ''b'']),
      track_heap = (\<lambda>_. \<lparr>track_properties = Map.empty, coverages = [], track_fetch = None\<rparr>)
        (1 := \<lparr>track_properties = Map.empty, coverages = [],
               track_fetch = Some (\<lambda>g. [''r1''])\<rparr>),
      next_addr = 3\<rparr>"

section \<open>Properties\<close>

subsection \<open>What the loops leave alone\<close>

lemma copy_frame_simps [simp]:
  "fst (copy_frame self s) = next_addr s"
  "frame_heap (snd (copy_frame self s)) (next_addr s) = frame_heap s self"
  "frame_heap (snd (copy_frame self s)) self = frame_heap s self"
  "f \<noteq> next_addr s \<Longrightarrow> frame_heap (snd (copy_frame self s)) f = frame_heap s f"
  "dict_heap (snd (copy_frame self s)) = dict_heap s"
  "track_heap (snd (copy_frame self s)) = track_heap s"
  "next_addr (snd (copy_frame self s)) = Suc (next_addr s)"
  by (simp_all add: copy_frame_def)

lemma fold_track_setitem_frames [simp]:
  "frame_heap (fold (\<lambda>track. track_setitem track k v) ts s) = frame_heap s"
  "dict_heap (fold (\<lambda>track. track_setitem track k v) ts s) = dict_heap s"
  "next_addr (fold (\<lambda>track. track_setitem track k v) ts s) = next_addr s"
  by (induction ts arbitrary: s) (simp_all add: track_setitem_def)

lemma fold_track_setitem_tracks:
  "track_heap (fold (\<lambda>track. track_setitem track k v) ts s) a =
     (if a \<in> set ts
      then (track_heap s a)\<lparr>track_properties := (track_properties (track_heap s a))(k \<mapsto> v)\<rparr>
      else track_heap s a)"
  by (induction ts arbitrary: s) (auto simp add: track_setitem_def)

lemma fold_append_coverage_frames [simp]:
  "frame_heap (fold (\<lambda>track. append_coverage track c) ts s) = frame_heap s"
  "dict_heap (fold (\<lambda>track. append_coverage track c) ts s) = dict_heap s"
  "next_addr (fold (\<lambda>track. append_coverage track c) ts s) = next_addr s"
  by (induction ts arbitrary: s) (simp_all add: append_coverage_def)

lemma fold_append_coverage_tracks:
  "track_heap (fold (\<lambda>track. append_coverage track c) ts s) a =
     (track_heap s a)\<lparr>coverages := coverages (track_heap s a) @ replicate (count_list ts a) c\<rparr>"
  by (induction ts arbitrary: s) (auto simp add: append_coverage_def replicate_append_same)

lemma fold_add_track_other [simp]:
  "dict_heap (fold (\<lambda>track. add_track gen f track) ts s) = dict_heap s"
  "track_heap (fold (\<lambda>track. add_track gen f track) ts s) = track_heap s"
  "next_addr (fold (\<lambda>track. add_track gen f track) ts s) = next_addr s"
  by (induction ts arbitrary: s) (simp_all add: add_track_def)

lemma fold_add_track_frames_other:
  "g \<noteq> f \<Longrightarrow> frame_heap (fold (\<lambda>track. add_track gen f track) ts s) g = frame_heap s g"
  by (induction ts arbitrary: s) (simp_all add: add_track_def)

lemma fold_add_track_frame:
  "current_range (frame_heap (fold (\<lambda>track. add_track gen f track) ts s) f)
     = current_range (frame_heap s f)"
  "properties (frame_heap (fold (\<lambda>track. add_track gen f track) ts s) f)
     = properties (frame_heap s f)"
  "map snd (tracks (frame_heap (fold (\<lambda>track. add_track gen f track) ts s) f))
     = map snd (tracks (frame_heap s f)) @ ts"
  by (induction ts arbitrary: s) (simp_all add: add_track_def)

lemma fold_add_track_prefix:
  "n \<le> length (tracks (frame_heap s f)) \<Longrightarrow>
   take n (tracks (frame_heap (fold (\<lambda>track. add_track gen f track) ts s) f))
     = take n (tracks (frame_heap s f))"
  by (induction ts arbitrary: s) (simp_all add: add_track_def)

subsection \<open>Copy isolation\<close>

text \<open>
  C1. \<open>__add__\<close> returns a new frame object, but the copy it starts from is shallow: the
  \<open>properties\<close> attribute of the result refers to the dictionary of the left operand. On
  the example store, after \<open>result = frame0 + track\<close> the result is the new object 3 whose
  \<open>properties\<close> is dictionary 0, that of frame 0; \<open>result.properties['title'] = 'b'\<close> then
  changes \<open>frame0.properties['title']\<close> from \<open>'a'\<close> to \<open>'b'\<close>. And
  \<open>frame0 + FrameFeature('title', 'b')\<close> writes into that shared dictionary itself, so the
  left operand is mutated in place.
\<close>

theorem combine_result_shares_properties:
  "combine ex_gen 0 (OTrack 5) ex_store
     = Inr (RFrame 3, add_track ex_gen 3 5 (snd (copy_frame 0 ex_store)))
   \<and> properties (frame_heap (add_track ex_gen 3 5 (snd (copy_frame 0 ex_store))) 3)
       = properties (frame_heap ex_store 0)
   \<and> dict_heap (add_track ex_gen 3 5 (snd (copy_frame 0 ex_store)))
        (properties (frame_heap ex_store 0)) ''title'' = Some (SStr ''a'')
   \<and> dict_heap
        (dict_setitem
           (properties (frame_heap (add_track ex_gen 3 5 (snd (copy_frame 0 ex_store))) 3))
           ''title'' (SStr ''b'')
           (add_track ex_gen 3 5 (snd (copy_frame 0 ex_store))))
        (properties (frame_heap ex_store 0)) ''title'' = Some (SStr ''b'')
   \<and> combine ex_gen 0 (OFrameFeature ''title'' (SStr ''b'')) ex_store
       = Inr (RFrame 3, dict_setitem 0 ''title'' (SStr ''b'') (snd (copy_frame 0 ex_store)))
   \<and> dict_heap (dict_setitem 0 ''title'' (SStr ''b'') (snd (copy_frame 0 ex_store)))
        (properties (frame_heap ex_store 0)) ''title'' = Some (SStr ''b'')"
  by (simp add: combine_def copy_frame_def add_track_def dict_setitem_def ex_store_def)

subsection \<open>Features and coverages go to the last track\<close>

text \<open>
  C2. When the frame has at least one track, \<open>frame + Feature(k, v)\<close> returns a new frame
  with the same track mapping, sets \<open>k\<close> to \<open>v\<close> in the properties of the last track, and
  touches nothing else: every entry before the last that holds another Track object
  keeps its properties, every Track object other than the last is unchanged as a whole,
  and no properties dictionary of any frame changes.
\<close>

theorem combine_feature_last_track_only:
  assumes "tracks (frame_heap s self) \<noteq> []"
  shows "case combine gen self (OFeature k v) s of
      Inr (RFrame r, s') \<Rightarrow>
        r = next_addr s \<and>
        tracks (frame_heap s' r) = tracks (frame_heap s self) \<and>
        track_properties (track_heap s' (snd (last (tracks (frame_heap s self))))) =
          (track_properties (track_heap s (snd (last (tracks (frame_heap s self))))))(k \<mapsto> v) \<and>
        (\<forall>i < length (tracks (frame_heap s self)) - 1.
           snd (tracks (frame_heap s self) ! i) \<noteq> snd (last (tracks (frame_heap s self))) \<longrightarrow>
           track_properties (track_heap s' (snd (tracks (frame_heap s self) ! i))) =
             track_properties (track_heap s (snd (tracks (frame_heap s self) ! i)))) \<and>
        (\<forall>a. a \<noteq> snd (last (tracks (frame_heap s self))) \<longrightarrow> track_heap s' a = track_heap s a) \<and>
        properties (frame_heap s' r) = properties (frame_heap s self) \<and>
        dict_heap s' = dict_heap s
    | _ \<Rightarrow> False"
  using assms by (simp add: combine_def copy_frame_def track_setitem_def)

theorem combine_feature_last_track_only_witness:
  "tracks (frame_heap ex_store 0) \<noteq> [] \<and>
   (case combine ex_gen 0 (OFeature ''color'' (SStr ''#66ccff'')) ex_store of
      Inr (RFrame r, s') \<Rightarrow>
        r = 3 \<and>
        track_properties (track_heap s' 1) ''color'' = Some (SStr ''#66ccff'') \<and>
        track_properties (track_heap s' 0) = track_properties (track_heap ex_store 0) \<and>
        dict_heap s' = dict_heap ex_store
    | _ \<Rightarrow> False)"
proof -
  have h: "tracks (frame_heap ex_store 0) \<noteq> []"
    by (simp add: ex_store_def)
  show ?thesis
    using h combine_feature_last_track_only
            [OF h, where gen = ex_gen and k = "''color''" and v = "SStr ''#66ccff''"]
    by (simp add: combine_def copy_frame_def track_setitem_def ex_store_def)
qed

subsection \<open>\<open>__mul__\<close> reaches every track\<close>

lemma scale_feature_eq:
  "scale self (OFeature k v) s =
     Inr (RFrame (next_addr s),
          fold (\<lambda>track. track_setitem track k v) (map snd (tracks (frame_heap s self)))
               (snd (copy_frame self s)))"
  by (simp add: scale_def add_feature_to_tracks_def copy_frame_def)

lemma scale_coverage_eq:
  "scale self (OCoverage c) s =
     Inr (RFrame (next_addr s),
          fold (\<lambda>track. append_coverage track c) (map snd (tracks (frame_heap s self)))
               (snd (copy_frame self s)))"
  by (simp add: scale_def add_cov_to_tracks_def copy_frame_def)

lemma scale_frame_feature_eq:
  "scale self (OFrameFeature k v) s =
     Inr (RFrame (next_addr s),
          fold (\<lambda>track. track_setitem track k v) (map snd (tracks (frame_heap s self)))
               (snd (copy_frame self s)))"
  by (simp add: scale_def add_feature_to_tracks_def copy_frame_def)

lemma count_list_member:
  "(name, t) \<in> set ts \<Longrightarrow> 0 < count_list (map snd ts) t"
  by (induction ts) auto

lemma count_list_distinct:
  "(name, t) \<in> set ts \<Longrightarrow> distinct (map snd ts) \<Longrightarrow> count_list (map snd ts) t = 1"
  by (induction ts) (auto simp add: rev_image_eqI)

text \<open>
  C3. \<open>frame * Feature(k, v)\<close> and \<open>frame * coverage\<close> return a new frame object with the
  attributes of the left operand and reach every track of the frame. For a Feature,
  every track of the frame has \<open>k\<close> set to \<open>v\<close> in its properties, its coverages are kept,
  and tracks outside the frame are unchanged. For a Coverage, every Track object gets the
  coverage appended once for each entry of the frame that holds it (not at all when
  the frame does not hold it): it is in the list of every track of the frame, and it is
  appended exactly once when the entries hold different Track objects.
\<close>

theorem scale_applies_to_every_track:
  "(case scale self (OFeature k v) s of
      Inr (RFrame r, s') \<Rightarrow>
        r = next_addr s \<and>
        frame_heap s' r = frame_heap s self \<and>
        (\<forall>(name, t) \<in> set (tracks (frame_heap s self)).
           track_properties (track_heap s' t) = (track_properties (track_heap s t))(k \<mapsto> v) \<and>
           coverages (track_heap s' t) = coverages (track_heap s t)) \<and>
        (\<forall>t. t \<notin> snd ` set (tracks (frame_heap s self)) \<longrightarrow> track_heap s' t = track_heap s t) \<and>
        dict_heap s' = dict_heap s
    | _ \<Rightarrow> False) \<and>
   (case scale self (OCoverage c) s of
      Inr (RFrame r, s') \<Rightarrow>
        r = next_addr s \<and>
        frame_heap s' r = frame_heap s self \<and>
        (\<forall>t. coverages (track_heap s' t) =
               coverages (track_heap s t)
               @ replicate (count_list (map snd (tracks (frame_heap s self))) t) c \<and>
             track_properties (track_heap s' t) = track_properties (track_heap s t)) \<and>
        (\<forall>(name, t) \<in> set (tracks (frame_heap s self)).
           c \<in> set (coverages (track_heap s' t)) \<and>
           (distinct (map snd (tracks (frame_heap s self))) \<longrightarrow>
              coverages (track_heap s' t) = coverages (track_heap s t) @ [c])) \<and>
        dict_heap s' = dict_heap s
    | _ \<Rightarrow> False)"
proof
  show "case scale self (OFeature k v) s of
      Inr (RFrame r, s') \<Rightarrow>
        r = next_addr s \<and>
        frame_heap s' r = frame_heap s self \<and>
        (\<forall>(name, t) \<in> set (tracks (frame_heap s self)).
           track_properties (track_heap s' t) = (track_properties (track_heap s t))(k \<mapsto> v) \<and>
           coverages (track_heap s' t) = coverages (track_heap s t)) \<and>
        (\<forall>t. t \<notin> snd ` set (tracks (frame_heap s self)) \<longrightarrow> track_heap s' t = track_heap s t) \<and>
        dict_heap s' = dict_heap s
    | _ \<Rightarrow> False"
    by (auto simp add: scale_feature_eq fold_track_setitem_tracks rev_image_eqI)
next
  show "case scale self (OCoverage c) s of
      Inr (RFrame r, s') \<Rightarrow>
        r = next_addr s \<and>
        frame_heap s' r = frame_heap s self \<and>
        (\<forall>t. coverages (track_heap s' t) =
               coverages (track_heap s t)
               @ replicate (count_list (map snd (tracks (frame_heap s self))) t) c \<and>
             track_properties (track_heap s' t) = track_properties (track_heap s t)) \<and>
        (\<forall>(name, t) \<in> set (tracks (frame_heap s self)).
           c \<in> set (coverages (track_heap s' t)) \<and>
           (distinct (map snd (tracks (frame_heap s self))) \<longrightarrow>
              coverages (track_heap s' t) = coverages (track_heap s t) @ [c])) \<and>
        dict_heap s' = dict_heap s
    | _ \<Rightarrow> False"
    by (auto simp add: scale_coverage_eq fold_append_coverage_tracks count_list_distinct
          dest: count_list_member)
qed

theorem scale_applies_to_every_track_witness:
  "(''A'', 0) \<in> set (tracks (frame_heap ex_store 0)) \<and>
   (''B'', 1) \<in> set (tracks (frame_heap ex_store 0)) \<and>
   2 \<notin> snd ` set (tracks (frame_heap ex_store 0)) \<and>
   distinct (map snd (tracks (frame_heap ex_store 0))) \<and>
   (case scale 0 (OFeature ''color'' (SStr ''#ff9c9c'')) ex_store of
      Inr (RFrame r, s') \<Rightarrow>
        track_properties (track_heap s' 0) ''color'' = Some (SStr ''#ff9c9c'') \<and>
        track_properties (track_heap s' 1) ''color'' = Some (SStr ''#ff9c9c'') \<and>
        track_heap s' 2 = track_heap ex_store 2
    | _ \<Rightarrow> False) \<and>
   (case scale 0 (OCoverage 7) ex_store of
      Inr (RFrame r, s') \<Rightarrow>
        coverages (track_heap s' 0) = [7] \<and> coverages (track_heap s' 1) = [7] \<and>
        coverages (track_heap s' 2) = []
    | _ \<Rightarrow> False)"
  using scale_applies_to_every_track
          [where self = 0 and s = ex_store and k = "''color''" and v = "SStr ''#ff9c9c''"
             and c = 7]
  by (simp add: scale_feature_eq scale_coverage_eq fold_track_setitem_tracks
        fold_append_coverage_tracks ex_store_def)

subsection \<open>Frames without tracks\<close>

text \<open>
  C4. On a frame with no track, \<open>frame + R\<close> for a Feature, a Coverage or a CoverageStack
  \<open>R\<close> raises nothing: it returns the new frame object and the store in which only that
  copy was made. The result has no track, refers to the properties dictionary of the left
  operand, and no dictionary, no track and not the left operand have changed.
\<close>

theorem combine_zero_tracks_noop:
  assumes "tracks (frame_heap s self) = []"
    and "other = OFeature k v \<or> other = OCoverage c \<or> other = OCoverageStack cs"
  shows "combine gen self other s = Inr (RFrame (next_addr s), snd (copy_frame self s))
    \<and> tracks (frame_heap (snd (copy_frame self s)) (next_addr s)) = []
    \<and> properties (frame_heap (snd (copy_frame self s)) (next_addr s))
        = properties (frame_heap s self)
    \<and> dict_heap (snd (copy_frame self s)) = dict_heap s
    \<and> track_heap (snd (copy_frame self s)) = track_heap s
    \<and> frame_heap (snd (copy_frame self s)) self = frame_heap s self"
  using assms by (auto simp add: combine_def copy_frame_def)

theorem combine_zero_tracks_noop_witness:
  "tracks (frame_heap ex_store 2) = []
   \<and> combine ex_gen 2 (OFeature ''color'' (SStr ''red'')) ex_store
       = Inr (RFrame 3, snd (copy_frame 2 ex_store))
   \<and> combine ex_gen 2 (OCoverage 7) ex_store = Inr (RFrame 3, snd (copy_frame 2 ex_store))
   \<and> combine ex_gen 2 (OCoverageStack [7, 8]) ex_store
       = Inr (RFrame 3, snd (copy_frame 2 ex_store))
   \<and> tracks (frame_heap (snd (copy_frame 2 ex_store)) 3) = []"
proof -
  have h: "tracks (frame_heap ex_store 2) = []"
    by (simp add: ex_store_def)
  have n: "next_addr ex_store = 3"
    by (simp add: ex_store_def)
  show ?thesis
    using h n
      combine_zero_tracks_noop
        [OF h, where other = "OFeature ''color'' (SStr ''red'')" and k = "''color''"
           and v = "SStr ''red''" and gen = ex_gen]
      combine_zero_tracks_noop [OF h, where other = "OCoverage 7" and c = 7 and gen = ex_gen]
      combine_zero_tracks_noop
        [OF h, where other = "OCoverageStack [7, 8]" and cs = "[7, 8]" and gen = ex_gen]
    by simp
qed

text \<open>
  C10. On a frame with no track, \<open>frame * Feature(k, v)\<close> and \<open>frame * coverage\<close> raise
  nothing: both return the new frame object, which has no track, and leave every track
  and every dictionary as they were.
\<close>

theorem scale_zero_tracks:
  assumes "tracks (frame_heap s self) = []"
  shows "scale self (OFeature k v) s = Inr (RFrame (next_addr s), snd (copy_frame self s))
    \<and> scale self (OCoverage c) s = Inr (RFrame (next_addr s), snd (copy_frame self s))
    \<and> tracks (frame_heap (snd (copy_frame self s)) (next_addr s)) = []
    \<and> track_heap (snd (copy_frame self s)) = track_heap s
    \<and> dict_heap (snd (copy_frame self s)) = dict_heap s"
  using assms by (simp add: scale_feature_eq scale_coverage_eq)

theorem scale_zero_tracks_witness:
  "tracks (frame_heap ex_store 2) = []
   \<and> scale 2 (OFeature ''color'' (SStr ''red'')) ex_store
       = Inr (RFrame 3, snd (copy_frame 2 ex_store))
   \<and> scale 2 (OCoverage 7) ex_store = Inr (RFrame 3, snd (copy_frame 2 ex_store))
   \<and> tracks (frame_heap (snd (copy_frame 2 ex_store)) 3) = []"
proof -
  have h: "tracks (frame_heap ex_store 2) = []"
    by (simp add: ex_store_def)
  have n: "next_addr ex_store = 3"
    by (simp add: ex_store_def)
  show ?thesis
    using h n scale_zero_tracks [OF h, where k = "''color''" and v = "SStr ''red''" and c = 7]
    by simp
qed

subsection \<open>The terminal operand\<close>

text \<open>
  C5. \<open>frame + WidgetsPanel(ref, type)\<close> returns a Browser, not a frame, with \<open>ref\<close> and
  \<open>type\<close>, but the frame it hands to the Browser is \<open>self\<close>, the left operand, where every
  other branch of \<open>__add__\<close> works on \<open>result\<close>, the copy made at the start. On the example
  store the copy of frame 0 is the new object 3; the Browser returned by
  \<open>frame0 + WidgetsPanel('hg19', 'simple')\<close> holds object 0 and the copy is dropped.
\<close>

theorem combine_widgets_panel_passes_self:
  "combine ex_gen 0 (OWidgetsPanel ''hg19'' ''simple'') ex_store
     = Inr (RBrowser \<lparr>browser_frame = 0, reference_genome = ''hg19'',
                       widgets_box = ''simple''\<rparr>,
            snd (copy_frame 0 ex_store))
   \<and> fst (copy_frame 0 ex_store) = 3
   \<and> combine ex_gen 0 (OWidgetsPanel ''hg19'' ''simple'') ex_store
       \<noteq> Inr (RBrowser \<lparr>browser_frame = fst (copy_frame 0 ex_store),
                         reference_genome = ''hg19'', widgets_box = ''simple''\<rparr>,
              snd (copy_frame 0 ex_store))"
  by (simp add: combine_def copy_frame_def ex_store_def)

subsection \<open>Unsupported operands\<close>


subsection \<open>Frame plus frame\<close>

lemma combine_frame_eq:
  "combine gen self (OFrame other) s =
     Inr (RFrame (next_addr s),
          dict_update
            (properties (frame_heap
               (fold (\<lambda>track. add_track gen (next_addr s) track)
                     (map snd (tracks (frame_heap (snd (copy_frame self s)) other)))
                     (snd (copy_frame self s))) (next_addr s)))
            (properties (frame_heap
               (fold (\<lambda>track. add_track gen (next_addr s) track)
                     (map snd (tracks (frame_heap (snd (copy_frame self s)) other)))
                     (snd (copy_frame self s))) other))
            (fold (\<lambda>track. add_track gen (next_addr s) track)
                  (map snd (tracks (frame_heap (snd (copy_frame self s)) other)))
                  (snd (copy_frame self s))))"
  by (simp add: combine_def copy_frame_def Let_def)

text \<open>
  C9. For a right operand that is a frame of the store, \<open>left + right\<close> returns a new frame
  whose track mapping starts with the entries of the left operand, unchanged, followed
  by the tracks of the right operand in their order. Its properties dictionary is the
  left operand's dictionary updated with the right operand's: a key of the right operand
  has the right operand's value, whether or not the left had it, and every other key
  keeps the left operand's entry. Nothing is raised and no track changes.
\<close>

theorem combine_frames_appends_and_merges:
  assumes "other < next_addr s"
  shows "case combine gen self (OFrame other) s of
      Inr (RFrame r, s') \<Rightarrow>
        r = next_addr s \<and>
        map snd (tracks (frame_heap s' r))
          = map snd (tracks (frame_heap s self)) @ map snd (tracks (frame_heap s other)) \<and>
        take (length (tracks (frame_heap s self))) (tracks (frame_heap s' r))
          = tracks (frame_heap s self) \<and>
        properties (frame_heap s' r) = properties (frame_heap s self) \<and>
        dict_heap s' (properties (frame_heap s' r))
          = dict_heap s (properties (frame_heap s self))
            ++ dict_heap s (properties (frame_heap s other)) \<and>
        (\<forall>key val. dict_heap s (properties (frame_heap s other)) key = Some val \<longrightarrow>
           dict_heap s' (properties (frame_heap s' r)) key = Some val) \<and>
        (\<forall>key. dict_heap s (properties (frame_heap s other)) key = None \<longrightarrow>
           dict_heap s' (properties (frame_heap s' r)) key
             = dict_heap s (properties (frame_heap s self)) key) \<and>
        track_heap s' = track_heap s
    | _ \<Rightarrow> False"
  using assms
  by (simp add: combine_frame_eq dict_update_def fold_add_track_frame fold_add_track_frames_other
        fold_add_track_prefix map_add_def)

theorem combine_frames_appends_and_merges_witness:
  "(1::nat) < next_addr ex_store \<and>
   dict_heap ex_store (properties (frame_heap ex_store 0)) ''title'' = Some (SStr ''a'') \<and>
   dict_heap ex_store (properties (frame_heap ex_store 1)) ''title'' = Some (SStr ''b'') \<and>
   dict_heap ex_store (properties (frame_heap ex_store 1)) ''width'' = None \<and>
   (case combine ex_gen 0 (OFrame 1) ex_store of
      Inr (RFrame r, s') \<Rightarrow>
        map snd (tracks (frame_heap s' r)) = [0, 1, 2] \<and>
        take 2 (tracks (frame_heap s' r)) = [(''A'', 0), (''B'', 1)] \<and>
        dict_heap s' (properties (frame_heap s' r)) ''title'' = Some (SStr ''b'') \<and>
        dict_heap s' (properties (frame_heap s' r)) ''width'' = Some (SInt 40)
    | _ \<Rightarrow> False)"
proof -
  have h: "(1::nat) < next_addr ex_store"
    by (simp add: ex_store_def)
  show ?thesis
    using h combine_frames_appends_and_merges [OF h, where gen = ex_gen and self = 0]
    by (simp add: combine_frame_eq dict_update_def add_track_def copy_frame_def ex_store_def)
qed

subsection \<open>\<open>fetch_data\<close>\<close>

lemma update_fresh_key:
  "k \<notin> fst ` set al \<Longrightarrow> AList.update k v al = al @ [(k, v)]"
  by (induction al) auto

lemma fetch_loop_distinct:
  "distinct (map fst ts) \<Longrightarrow> fst ` set td \<inter> fst ` set ts = {} \<Longrightarrow>
   fetch_loop th g ts (td, calls) =
     (td @ map (\<lambda>(name, t). (name, case track_fetch (th t) of Some f \<Rightarrow> f g | None \<Rightarrow> [])) ts,
      calls @ map (\<lambda>(name, t). (name, g))
                  (filter (\<lambda>(name, t). track_fetch (th t) \<noteq> None) ts))"
proof (induction ts arbitrary: td calls)
  case Nil
  then show ?case by simp
next
  case (Cons p ts)
  obtain name t where p: "p = (name, t)"
    by (cases p)
  from Cons.prems p have fresh: "name \<notin> fst ` set td"
    by auto
  from Cons.prems p have d: "distinct (map fst ts)" and notin: "name \<notin> fst ` set ts"
    by auto
  have disj: "fst ` set (td @ [(name, x)]) \<inter> fst ` set ts = {}" for x
    using Cons.prems p notin by auto
  show ?case
    using Cons.IH [OF d disj] fresh p
    by (cases "track_fetch (th t)") (simp_all add: update_fresh_key)
qed

text \<open>
  C7. Let the range resolve to \<open>g\<close>: it is given as a \<open>GenomeRange\<close>, or as a string that
  parses to \<open>g\<close>, or it is omitted and the frame's \<open>current_range\<close> is \<open>g\<close>. With the track
  names of the frame distinct, as the keys of a mapping are, \<open>fetch_data\<close> returns one
  entry per track, in the order of the frame's track mapping: under the track's name,
  what the track's fetch returns on \<open>g\<close> when the track has a fetch, and the empty list
  when it has none. The fetches are called in that same order, on \<open>g\<close>, and only for the
  tracks that have one.
\<close>

theorem fetch_data_mirrors_track_order:
  assumes "distinct (map fst (tracks (frame_heap s self)))"
    and "genome_range = Some (RangeObj g)
         \<or> (genome_range = Some (RangeStr str) \<and> parse str = Some g)
         \<or> (genome_range = None \<and> current_range (frame_heap s self) = Some g)"
  shows "fetch_data parse self genome_range s =
     (Inr (map (\<lambda>(name, t). (name, case track_fetch (track_heap s t) of
                                        Some f \<Rightarrow> f g | None \<Rightarrow> []))
               (tracks (frame_heap s self))),
      map (\<lambda>(name, t). (name, g))
          (filter (\<lambda>(name, t). track_fetch (track_heap s t) \<noteq> None)
                  (tracks (frame_heap s self))))"
  using assms by (auto simp add: fetch_data_def fetch_loop_distinct)

theorem fetch_data_mirrors_track_order_witness:
  "distinct (map fst (tracks (frame_heap ex_store 0)))
   \<and> track_fetch (track_heap ex_store 0) = None
   \<and> fetch_data (\<lambda>str. None) 0
        (Some (RangeObj \<lparr>chrom = ''chrX'', range_start = 1, range_end = 2\<rparr>)) ex_store
     = (Inr [(''A'', []), (''B'', [''r1''])],
        [(''B'', \<lparr>chrom = ''chrX'', range_start = 1, range_end = 2\<rparr>)])"
proof -
  have h: "distinct (map fst (tracks (frame_heap ex_store 0)))"
    by (simp add: ex_store_def)
  show ?thesis
    using h
      fetch_data_mirrors_track_order
        [OF h, where genome_range
                 = "Some (RangeObj \<lparr>chrom = ''chrX'', range_start = 1, range_end = 2\<rparr>)"
           and g = "\<lparr>chrom = ''chrX'', range_start = 1, range_end = 2\<rparr>"
           and parse = "\<lambda>str. None"]
    by (simp add: ex_store_def)
qed

lemma fetch_loop_calls:
  "snd (fetch_loop th g ts (td, calls)) =
     calls @ map (\<lambda>(name, t). (name, g))
                 (filter (\<lambda>(name, t). track_fetch (th t) \<noteq> None) ts)"
proof (induction ts arbitrary: td calls)
  case Nil
  then show ?case by simp
next
  case (Cons p ts)
  obtain name t where p: "p = (name, t)"
    by (cases p)
  show ?case
    using Cons.IH p by (cases "track_fetch (th t)") simp_all
qed

text \<open>
  C8. With the argument omitted and a \<open>current_range\<close> \<open>g\<close>, the range is \<open>g\<close>: \<open>fetch_data\<close>
  does what it does when given \<open>g\<close>; it calls the fetch of every track that has one on
  \<open>g\<close>, in the order of the track mapping; and, the track names being distinct, it returns
  for every track what its fetch gives on \<open>g\<close>, or the empty list. It raises the
  \<open>RuntimeError\<close> of the missing range exactly when the argument is omitted and the frame
  has no \<open>current_range\<close>; the call then returns that error with no fetch made.
\<close>

theorem fetch_data_missing_range:
  "(current_range (frame_heap s self) = Some g \<longrightarrow>
      fetch_data parse self None s = fetch_data parse self (Some (RangeObj g)) s
      \<and> snd (fetch_data parse self None s) =
          map (\<lambda>(name, t). (name, g))
              (filter (\<lambda>(name, t). track_fetch (track_heap s t) \<noteq> None)
                      (tracks (frame_heap s self)))
      \<and> (distinct (map fst (tracks (frame_heap s self))) \<longrightarrow>
           fst (fetch_data parse self None s) =
             Inr (map (\<lambda>(name, t). (name, case track_fetch (track_heap s t) of
                                              Some f \<Rightarrow> f g | None \<Rightarrow> []))
                      (tracks (frame_heap s self)))))
   \<and> ((\<exists>msg. fst (fetch_data parse self genome_range s) = Inl (RuntimeError msg))
        \<longleftrightarrow> genome_range = None \<and> current_range (frame_heap s self) = None)
   \<and> (genome_range = None \<and> current_range (frame_heap s self) = None \<longrightarrow>
        fetch_data parse self genome_range s =
          (Inl (RuntimeError ''Please specify a genome range like: chr1:1000-2000''), []))"
proof (intro conjI impI)
  assume cur: "current_range (frame_heap s self) = Some g"
  show "fetch_data parse self None s = fetch_data parse self (Some (RangeObj g)) s"
    using cur by (simp add: fetch_data_def)
  have calls: "snd (fetch_loop (track_heap s) g (tracks (frame_heap s self)) ([], [])) =
      map (\<lambda>(name, t). (name, g))
          (filter (\<lambda>(name, t). track_fetch (track_heap s t) \<noteq> None)
                  (tracks (frame_heap s self)))"
    by (simp add: fetch_loop_calls)
  show "snd (fetch_data parse self None s) =
      map (\<lambda>(name, t). (name, g))
          (filter (\<lambda>(name, t). track_fetch (track_heap s t) \<noteq> None)
                  (tracks (frame_heap s self)))"
    using cur calls by (simp add: fetch_data_def case_prod_unfold)
  assume "distinct (map fst (tracks (frame_heap s self)))"
  then show "fst (fetch_data parse self None s) =
      Inr (map (\<lambda>(name, t). (name, case track_fetch (track_heap s t) of
                                       Some f \<Rightarrow> f g | None \<Rightarrow> []))
               (tracks (frame_heap s self)))"
    using cur by (simp add: fetch_data_def fetch_loop_distinct)
next
  show "(\<exists>msg. fst (fetch_data parse self genome_range s) = Inl (RuntimeError msg))
        \<longleftrightarrow> genome_range = None \<and> current_range (frame_heap s self) = None"
    by (auto simp add: fetch_data_def split: option.splits range_arg.splits prod.splits)
next
  assume "genome_range = None \<and> current_range (frame_heap s self) = None"
  then show "fetch_data parse self genome_range s =
      (Inl (RuntimeError ''Please specify a genome range like: chr1:1000-2000''), [])"
    by (simp add: fetch_data_def)
qed

theorem fetch_data_missing_range_witness:
  "current_range (frame_heap ex_store 0)
     = Some \<lparr>chrom = ''chr1'', range_start = 1000, range_end = 2000\<rparr>
   \<and> distinct (map fst (tracks (frame_heap ex_store 0)))
   \<and> fetch_data (\<lambda>str. None) 0 None ex_store
       = fetch_data (\<lambda>str. None) 0
           (Some (RangeObj \<lparr>chrom = ''chr1'', range_start = 1000, range_end = 2000\<rparr>)) ex_store
   \<and> fetch_data (\<lambda>str. None) 0 None ex_store
       = (Inr [(''A'', []), (''B'', [''r1''])],
          [(''B'', \<lparr>chrom = ''chr1'', range_start = 1000, range_end = 2000\<rparr>)])
   \<and> current_range (frame_heap ex_store 1) = None
   \<and> fetch_data (\<lambda>str. None) 1 None ex_store
       = (Inl (RuntimeError ''Please specify a genome range like: chr1:1000-2000''), [])"
proof -
  have h0: "current_range (frame_heap ex_store 0)
              = Some \<lparr>chrom = ''chr1'', range_start = 1000, range_end = 2000\<rparr>"
    by (simp add: ex_store_def)
  have d0: "distinct (map fst (tracks (frame_heap ex_store 0)))"
    by (simp add: ex_store_def)
  have h1: "current_range (frame_heap ex_store 1) = None"
    by (simp add: ex_store_def)
  have ex0: "fetch_data (\<lambda>str. None) 0 None ex_store
       = (Inr [(''A'', []), (''B'', [''r1''])],
          [(''B'', \<lparr>chrom = ''chr1'', range_start = 1000, range_end = 2000\<rparr>)])"
    using h0 d0
      fetch_data_missing_range
        [where s = ex_store and self = 0 and parse = "\<lambda>str. None"
           and g = "\<lparr>chrom = ''chr1'', range_start = 1000, range_end = 2000\<rparr>"]
    by (simp add: fetch_data_def ex_store_def)
  show ?thesis
    using h0 d0 h1 ex0
      fetch_data_missing_range
        [where s = ex_store and self = 0 and parse = "\<lambda>str. None"
           and g = "\<lparr>chrom = ''chr1'', range_start = 1000, range_end = 2000\<rparr>"]
      fetch_data_missing_range
        [where s = ex_store and self = 1 and parse = "\<lambda>str. None" and genome_range = None]
    by simp
qed

end
